theory Spec2Isabelle
  imports Main
begin

section \<open>Values of the appointment workflow\<close>

text \<open>
  The appointment payload is a Python dict that travels through a JSON token and a JSON
  file, so every value the handler sees is a JSON value. Python's \<open>None\<close> is
  \<open>JNull\<close>; a dict is an association list in insertion order. JSON numbers with a
  fraction are left out: no step of the workflow computes with them.
\<close>

datatype jval =
    JNull
  | JBool bool
  | JInt int
  | JStr string
  | JList "jval list"
  | JObj "(string \<times> jval) list"

text \<open>Python truthiness, as \<open>if x:\<close> and \<open>if not x:\<close> read it.\<close>

fun truthy :: "jval \<Rightarrow> bool" where
  "truthy JNull = False"
| "truthy (JBool b) = b"
| "truthy (JInt n) = (n \<noteq> 0)"
| "truthy (JStr s) = (s \<noteq> [])"
| "truthy (JList xs) = (xs \<noteq> [])"
| "truthy (JObj kvs) = (kvs \<noteq> [])"

text \<open>
  An exception, by the text \<open>str(e)\<close> gives: the handlers of the workflow catch every
  class alike and only print or flash that text.
\<close>

datatype exn = Raised string

fun exn_text :: "exn \<Rightarrow> string" where
  "exn_text (Raised text) = text"

fun type_name :: "jval \<Rightarrow> string" where
  "type_name JNull = ''NoneType''"
| "type_name (JBool b) = ''bool''"
| "type_name (JInt n) = ''int''"
| "type_name (JStr s) = ''str''"
| "type_name (JList xs) = ''list''"
| "type_name (JObj kvs) = ''dict''"

definition quoted :: "string \<Rightarrow> string" where
  "quoted s = [CHR 0x27] @ s @ [CHR 0x27]"

definition no_attribute :: "jval \<Rightarrow> string \<Rightarrow> exn" where
  "no_attribute v attr =
     Raised (quoted (type_name v) @ '' object has no attribute '' @ quoted attr)"

text \<open>\<open>d.get(k)\<close>: the value, or \<open>None\<close> for a missing key.\<close>

definition dict_get :: "(string \<times> jval) list \<Rightarrow> string \<Rightarrow> jval" where
  "dict_get d k = (case map_of d k of None \<Rightarrow> JNull | Some v \<Rightarrow> v)"

text \<open>\<open>d[k]\<close>: raises KeyError for a missing key.\<close>

definition dict_item :: "(string \<times> jval) list \<Rightarrow> string \<Rightarrow> exn + jval" where
  "dict_item d k = (case map_of d k of None \<Rightarrow> Inl (Raised (quoted k)) | Some v \<Rightarrow> Inr v)"

text \<open>\<open>v.get(k)\<close> on any value: only a dict has the method.\<close>

definition py_get :: "jval \<Rightarrow> string \<Rightarrow> exn + jval" where
  "py_get v k = (case v of JObj d \<Rightarrow> Inr (dict_get d k) | _ \<Rightarrow> Inl (no_attribute v ''get''))"

text \<open>\<open>d[k] = v\<close>: an existing key keeps its place, a new key goes last.\<close>

fun dict_set :: "string \<Rightarrow> jval \<Rightarrow> (string \<times> jval) list \<Rightarrow> (string \<times> jval) list" where
  "dict_set k v [] = [(k, v)]"
| "dict_set k v ((k', v') # kvs) =
     (if k' = k then (k, v) # kvs else (k', v') # dict_set k v kvs)"

section \<open>Token codec\<close>

text \<open>
  \<open>serializer = URLSafeTimedSerializer(app.secret_key)\<close> comes from the itsdangerous
  library, which is not among the repository's files; \<open>dumps\<close> and \<open>loads\<close> below are a
  model of its signing scheme. Its token is \<open>payload.timestamp.signature\<close>. The three
  text codecs and the keyed signature are the library's and the secret's business and
  stay parameters; the splitting at the last separator, the signature check and the age
  check (a signature older than \<open>max_age\<close> seconds, or from the future, is expired) are
  written out. The clock is read in whole seconds.
\<close>

record serializer =
  dump_payload :: "jval \<Rightarrow> string"
  load_payload :: "string \<Rightarrow> jval option"
  timestamp_text :: "int \<Rightarrow> string"
  timestamp_value :: "string \<Rightarrow> int option"
  get_signature :: "string \<Rightarrow> string"
  verify_signature :: "string \<Rightarrow> string \<Rightarrow> bool"

datatype bad_data = BadSignature | BadTimeSignature | SignatureExpired | BadPayload

text \<open>\<open>s.rsplit(sep, 1)\<close>: the text before and after the last separator, if there is one.\<close>

fun rsplit1 :: "char \<Rightarrow> string \<Rightarrow> (string \<times> string) option" where
  "rsplit1 c [] = None"
| "rsplit1 c (x # xs) =
     (case rsplit1 c xs of
        Some (a, b) \<Rightarrow> Some (x # a, b)
      | None \<Rightarrow> if x = c then Some ([], xs) else None)"

definition dumps :: "serializer \<Rightarrow> int \<Rightarrow> jval \<Rightarrow> string" where
  "dumps ser now obj =
     (let v = dump_payload ser obj @ ''.'' @ timestamp_text ser now
      in v @ ''.'' @ get_signature ser v)"

definition loads :: "serializer \<Rightarrow> int \<Rightarrow> string \<Rightarrow> int \<Rightarrow> bad_data + jval" where
  "loads ser now s max_age =
     (case rsplit1 (CHR ''.'') s of
        None \<Rightarrow> Inl BadSignature
      | Some (v, sig) \<Rightarrow>
          if \<not> verify_signature ser v sig then Inl BadSignature
          else
            (case rsplit1 (CHR ''.'') v of
               None \<Rightarrow> Inl BadTimeSignature
             | Some (payload, ts) \<Rightarrow>
                 (case timestamp_value ser ts of
                    None \<Rightarrow> Inl BadTimeSignature
                  | Some t \<Rightarrow>
                      if now - t > max_age then Inl SignatureExpired
                      else if now - t < 0 then Inl SignatureExpired
                      else
                        (case load_payload ser payload of
                           None \<Rightarrow> Inl BadPayload
                         | Some obj \<Rightarrow> Inr obj))))"

text \<open>\<open>generate_appointment_token\<close> and \<open>verify_appointment_token\<close> of app.py.\<close>

definition generate_appointment_token :: "serializer \<Rightarrow> int \<Rightarrow> jval \<Rightarrow> string" where
  "generate_appointment_token ser now appointment_data = dumps ser now appointment_data"

definition verify_appointment_token :: "serializer \<Rightarrow> int \<Rightarrow> string \<Rightarrow> int \<Rightarrow> jval" where
  "verify_appointment_token ser now token max_age =
     (case loads ser now token max_age of
        Inr obj \<Rightarrow> obj
      | Inl e \<Rightarrow> JNull)"

text \<open>
  What the library guarantees for one payload and one signing time: its codecs invert
  each other, its base64 texts hold no separator, and a signature it made verifies.
\<close>

definition encodes_well :: "serializer \<Rightarrow> jval \<Rightarrow> int \<Rightarrow> bool" where
  "encodes_well ser obj t =
     (load_payload ser (dump_payload ser obj) = Some obj \<and>
      timestamp_value ser (timestamp_text ser t) = Some t \<and>
      CHR ''.'' \<notin> set (timestamp_text ser t) \<and>
      CHR ''.'' \<notin> set (get_signature ser (dump_payload ser obj @ ''.'' @ timestamp_text ser t)) \<and>
      verify_signature ser (dump_payload ser obj @ ''.'' @ timestamp_text ser t)
        (get_signature ser (dump_payload ser obj @ ''.'' @ timestamp_text ser t)))"

text \<open>A stand-in serializer for concrete runs: it knows one payload.\<close>

definition table_serializer :: "jval \<Rightarrow> serializer" where
  "table_serializer obj =
     \<lparr> dump_payload = (\<lambda>v. if v = obj then ''P'' else ''Q''),
       load_payload = (\<lambda>s. if s = ''P'' then Some obj else None),
       timestamp_text = (\<lambda>t. replicate (nat t) (CHR ''T'')),
       timestamp_value =
         (\<lambda>s. if s = replicate (length s) (CHR ''T'') then Some (int (length s)) else None),
       get_signature = (\<lambda>v. ''S''),
       verify_signature = (\<lambda>v s. s = ''S'') \<rparr>"

section \<open>The world the workflow runs in\<close>

text \<open>
  A file holds JSON text (\<open>Json v\<close>, read back as \<open>v\<close>), other bytes, or cannot be
  opened for reading (a directory, a file without permission). A path outside the
  domain of \<open>files\<close> does not exist.
\<close>

datatype fcontent = Json jval | Blob string | Unreadable

text \<open>An uploaded file as \<open>api_book_appointment\<close> lists it: a dict with \<open>path\<close> and \<open>filename\<close>.\<close>

record attachment =
  path :: "string option"
  filename :: "string option"

record mime_part =
  main_type :: string
  sub_type :: string
  payload :: fcontent
  part_filename :: string

record mime_message =
  msg_from :: string
  msg_to :: jval
  msg_subject :: string
  msg_body :: string
  msg_parts :: "mime_part list"

text \<open>
  The state the workflow changes: the file system, the lines printed to standard output
  and the messages the SMTP server accepted. \<open>traceback.print_exc()\<close> writes to standard
  error and is left out.
\<close>

record world =
  files :: "string \<Rightarrow> fcontent option"
  console :: "string list"
  sent :: "mime_message list"

text \<open>A Google Calendar event as the orchestrator builds it, times in minutes.\<close>

record event =
  summary :: string
  description :: "string option"
  start_minute :: int
  end_minute :: int
  attendees :: "string list"

text \<open>\<open>service.events().insert(...).execute()\<close>: the created event, or an exception.\<close>

type_synonym service = "event \<Rightarrow> exn + jval"

text \<open>
  What the workflow reads from outside the repository: the clock, the configuration, the
  libraries (mimetypes, smtplib, Flask's templates, markdown, json's and the operating
  system's error texts, hashlib, pickle, the Google client) and Python's \<open>str()\<close> of a
  value that is not a string.
\<close>

record env =
  clock :: int
  now_isoformat :: string
  str_other :: "jval \<Rightarrow> string"
  email_sender :: string
  email_password :: string
  host_url :: string
  guess_type :: "string \<Rightarrow> string option"
  smtp_send :: "string \<Rightarrow> string \<Rightarrow> mime_message \<Rightarrow> exn option"
  render_template :: "string \<Rightarrow> (string \<times> jval) list \<Rightarrow> exn + string"
  markdown :: "string option \<Rightarrow> exn + string"
  open_for_write :: "string \<Rightarrow> exn option"
  open_error :: "string \<Rightarrow> exn"
  json_error :: "string \<Rightarrow> exn"
  new_appointment_id :: "string \<Rightarrow> string \<Rightarrow> string \<Rightarrow> string"
  google_api_available :: bool
  pickle_load :: "fcontent \<Rightarrow> exn + bool option"
  build :: "exn + service"
  strptime :: "string \<Rightarrow> exn + int"

definition print :: "string \<Rightarrow> world \<Rightarrow> world" where
  "print line w = w\<lparr>console := console w @ [line]\<rparr>"

text \<open>An f-string field: a string as it is, any other value through \<open>str()\<close>.\<close>

fun format_value :: "env \<Rightarrow> jval \<Rightarrow> string" where
  "format_value env (JStr s) = s"
| "format_value env v = str_other env v"

text \<open>\<open>os.path.join(a, b)\<close> on POSIX: an absolute \<open>b\<close> replaces \<open>a\<close>.\<close>

definition path_join :: "string \<Rightarrow> string \<Rightarrow> string" where
  "path_join a b =
     (if b \<noteq> [] \<and> hd b = CHR ''/'' then b
      else if a = [] \<or> last a = CHR ''/'' then a @ b
      else a @ ''/'' @ b)"

text \<open>\<open>os.path.basename\<close>: the text after the last slash.\<close>

definition basename :: "string \<Rightarrow> string" where
  "basename p = (case rsplit1 (CHR ''/'') p of None \<Rightarrow> p | Some (a, b) \<Rightarrow> b)"

text \<open>\<open>s.split(sep, 1)\<close> unpacked into two names: the split at the first separator.\<close>

fun split1 :: "char \<Rightarrow> string \<Rightarrow> (string \<times> string) option" where
  "split1 c [] = None"
| "split1 c (x # xs) =
     (if x = c then Some ([], xs)
      else (case split1 c xs of None \<Rightarrow> None | Some (a, b) \<Rightarrow> Some (x # a, b)))"

text \<open>\<open>s.rstrip('/')\<close>.\<close>

definition rstrip :: "char \<Rightarrow> string \<Rightarrow> string" where
  "rstrip c s = rev (dropWhile (\<lambda>x. x = c) (rev s))"

definition APPOINTMENTS_FOLDER :: string where
  "APPOINTMENTS_FOLDER = ''appointments''"

definition appointment_file :: "env \<Rightarrow> jval \<Rightarrow> string" where
  "appointment_file env appointment_id =
     path_join APPOINTMENTS_FOLDER (format_value env appointment_id @ ''.json'')"

section \<open>Appointment store\<close>

text \<open>
  \<open>save_appointment_data\<close>: no id, no write and \<open>False\<close>; otherwise the file of the id
  is overwritten with the record. Opening the file for writing may raise.
\<close>

definition save_appointment_data ::
  "env \<Rightarrow> (string \<times> jval) list \<Rightarrow> world \<Rightarrow> (exn + bool) \<times> world" where
  "save_appointment_data env appointment_data w =
     (let appointment_id = dict_get appointment_data ''id'' in
      if \<not> truthy appointment_id then (Inr False, w)
      else
        (let filename = appointment_file env appointment_id in
         case open_for_write env filename of
           Some e \<Rightarrow> (Inl e, w)
         | None \<Rightarrow>
             (Inr True, w\<lparr>files := (files w)(filename \<mapsto> Json (JObj appointment_data))\<rparr>)))"

section \<open>Notification dispatcher\<close>

record result =
  success :: bool
  message :: string

text \<open>One round of the attachment loop: nothing attached (skipped), a part, or an exception.\<close>

definition declared_name :: "attachment \<Rightarrow> string \<Rightarrow> string" where
  "declared_name a file_path =
     (case filename a of
        None \<Rightarrow> basename file_path
      | Some f \<Rightarrow> if f = [] then basename file_path else f)"

definition content_type :: "env \<Rightarrow> string \<Rightarrow> string" where
  "content_type env file_path =
     (case guess_type env file_path of
        None \<Rightarrow> ''application/octet-stream''
      | Some t \<Rightarrow> t)"

definition attach_one ::
  "env \<Rightarrow> attachment \<Rightarrow> world \<Rightarrow> (exn + mime_part option) \<times> world" where
  "attach_one env a w =
     (case path a of
        None \<Rightarrow> (Inr None, print (''Skipping attachment - file not found: None'') w)
      | Some file_path \<Rightarrow>
          (case (if file_path = [] then None else files w file_path) of
             None \<Rightarrow>
               (Inr None, print (''Skipping attachment - file not found: '' @ file_path) w)
           | Some content \<Rightarrow>
               (case split1 (CHR ''/'') (content_type env file_path) of
                  None \<Rightarrow>
                    (Inl (Raised ''not enough values to unpack (expected 2, got 1)''), w)
                | Some (main, sub) \<Rightarrow>
                    (case content of
                       Unreadable \<Rightarrow> (Inl (open_error env file_path), w)
                     | _ \<Rightarrow>
                         (Inr (Some \<lparr> main_type = main, sub_type = sub, payload = content,
                                      part_filename = declared_name a file_path \<rparr>),
                          print (''Attached file: '' @ declared_name a file_path) w)))))"

fun attach_all ::
  "env \<Rightarrow> attachment list \<Rightarrow> mime_part list \<Rightarrow> world \<Rightarrow> (exn + mime_part list) \<times> world" where
  "attach_all env [] parts w = (Inr parts, w)"
| "attach_all env (a # rest) parts w =
     (case attach_one env a w of
        (Inl e, w') \<Rightarrow> (Inl e, w')
      | (Inr None, w') \<Rightarrow> attach_all env rest parts w'
      | (Inr (Some p), w') \<Rightarrow> attach_all env rest (parts @ [p]) w')"

text \<open>
  \<open>send_email_with_attachments\<close>: the loop runs for a list that is not empty (\<open>None\<close>
  and \<open>[]\<close> alike skip it), then the SMTP session (connect, STARTTLS, login, send, quit)
  is one call to the outside: it accepts the message or raises. Any exception ends in
  the failure result.
\<close>

definition send_failed :: "exn \<Rightarrow> world \<Rightarrow> result \<times> world" where
  "send_failed e w =
     (\<lparr> success = False, message = ''Failed to send email: '' @ exn_text e \<rparr>,
      print (''Error sending email: '' @ exn_text e) w)"

definition send_email_with_attachments ::
  "env \<Rightarrow> string \<Rightarrow> string \<Rightarrow> jval \<Rightarrow> string \<Rightarrow> string \<Rightarrow> attachment list \<Rightarrow> world
     \<Rightarrow> result \<times> world" where
  "send_email_with_attachments env sender_email sender_password recipient_email subject body
       attachment_list w =
     (case attach_all env attachment_list [] w of
        (Inl e, w1) \<Rightarrow> send_failed e w1
      | (Inr parts, w1) \<Rightarrow>
          (let m = \<lparr> msg_from = sender_email, msg_to = recipient_email, msg_subject = subject,
                     msg_body = body, msg_parts = parts \<rparr>
           in case smtp_send env sender_email sender_password m of
                Some e \<Rightarrow> send_failed e w1
              | None \<Rightarrow>
                  (\<lparr> success = True,
                     message = ''Email sent to '' @ format_value env recipient_email \<rparr>,
                   print (''Email sent successfully to '' @ format_value env recipient_email)
                     (w1\<lparr>sent := sent w1 @ [m]\<rparr>))))"

definition send_patient_confirmation_email ::
  "env \<Rightarrow> jval \<Rightarrow> jval \<Rightarrow> jval \<Rightarrow> jval \<Rightarrow> jval \<Rightarrow> world \<Rightarrow> result \<times> world" where
  "send_patient_confirmation_email env patient_email doctor_name scheduled_time meet_link
       doctor_specialization w =
     (case render_template env ''email_patient.html''
             [(''doctor_name'', doctor_name), (''doctor_specialization'', doctor_specialization),
              (''scheduled_time'', scheduled_time), (''meet_link'', meet_link),
              (''status'', JStr ''accepted'')] of
        Inl e \<Rightarrow>
          (\<lparr> success = False, message = exn_text e \<rparr>,
           print (''Error sending patient confirmation: '' @ exn_text e) w)
      | Inr email_body \<Rightarrow>
          send_email_with_attachments env (email_sender env) (email_password env) patient_email
            (''Appointment Confirmed with '' @ format_value env doctor_name) email_body [] w)"

definition send_patient_rejection_email ::
  "env \<Rightarrow> jval \<Rightarrow> jval \<Rightarrow> jval \<Rightarrow> jval \<Rightarrow> world \<Rightarrow> result \<times> world" where
  "send_patient_rejection_email env patient_email doctor_name scheduled_time
       doctor_specialization w =
     (case render_template env ''email_patient.html''
             [(''doctor_name'', doctor_name), (''doctor_specialization'', doctor_specialization),
              (''scheduled_time'', scheduled_time), (''status'', JStr ''rejected'')] of
        Inl e \<Rightarrow>
          (\<lparr> success = False, message = exn_text e \<rparr>,
           print (''Error sending patient rejection: '' @ exn_text e) w)
      | Inr email_body \<Rightarrow>
          send_email_with_attachments env (email_sender env) (email_password env) patient_email
            (''Appointment Update from '' @ format_value env doctor_name) email_body [] w)"

section \<open>Response handler\<close>

text \<open>
  What \<open>handle_appointment_response\<close> returns: the arguments it gives the template
  \<open>appointment_response.html\<close> and the messages it flashed for it.
\<close>

record response =
  status :: string
  appointment :: "jval option"
  outcome :: "string option"
  flashes :: "(string \<times> string) list"

definition error_view :: "string \<Rightarrow> response" where
  "error_view text =
     \<lparr> status = ''error'', appointment = None, outcome = None,
       flashes = [(text, ''error'')] \<rparr>"

text \<open>
  The notification and the view that follow the save. The payload's fields are read
  with \<open>d[k]\<close>, left to right, before the call is made.
\<close>

definition notify_patient ::
  "env \<Rightarrow> string \<Rightarrow> (string \<times> jval) list \<Rightarrow> world \<Rightarrow> (exn + response) \<times> world" where
  "notify_patient env action appointment_data w =
     (if action = ''accept'' then
        (case dict_item appointment_data ''patient_email'' of Inl e \<Rightarrow> (Inl e, w) | Inr pe \<Rightarrow>
         case dict_item appointment_data ''doctor_name'' of Inl e \<Rightarrow> (Inl e, w) | Inr dn \<Rightarrow>
         case dict_item appointment_data ''appointment_time'' of Inl e \<Rightarrow> (Inl e, w) | Inr at \<Rightarrow>
         case dict_item appointment_data ''meet_link'' of Inl e \<Rightarrow> (Inl e, w) | Inr ml \<Rightarrow>
           (let (r, w') = send_patient_confirmation_email env pe dn at ml
                            (dict_get appointment_data ''doctor_specialization'') w;
                text = (if success r
                        then ''Appointment accepted successfully! Patient has been notified via email.''
                        else ''Appointment accepted, but failed to notify patient: '' @ message r)
            in (Inr \<lparr> status = ''accepted'', appointment = Some (JObj appointment_data),
                      outcome = Some text, flashes = [] \<rparr>, w')))
      else
        (case dict_item appointment_data ''patient_email'' of Inl e \<Rightarrow> (Inl e, w) | Inr pe \<Rightarrow>
         case dict_item appointment_data ''doctor_name'' of Inl e \<Rightarrow> (Inl e, w) | Inr dn \<Rightarrow>
         case dict_item appointment_data ''appointment_time'' of Inl e \<Rightarrow> (Inl e, w) | Inr at \<Rightarrow>
           (let (r, w') = send_patient_rejection_email env pe dn at
                            (dict_get appointment_data ''doctor_specialization'') w;
                text = (if success r
                        then ''Appointment declined. Patient has been notified via email.''
                        else ''Appointment declined, but failed to notify patient: '' @ message r)
            in (Inr \<lparr> status = ''rejected'', appointment = Some (JObj appointment_data),
                      outcome = Some text, flashes = [] \<rparr>, w'))))"

text \<open>The record built from the payload: \<open>status\<close> and \<open>response_time\<close> set, then saved.\<close>

definition mark_handled :: "env \<Rightarrow> string \<Rightarrow> (string \<times> jval) list \<Rightarrow> (string \<times> jval) list" where
  "mark_handled env action appointment_data =
     dict_set ''response_time'' (JStr (now_isoformat env))
       (dict_set ''status'' (JStr action) appointment_data)"

definition record_response ::
  "env \<Rightarrow> string \<Rightarrow> (string \<times> jval) list \<Rightarrow> world \<Rightarrow> (exn + response) \<times> world" where
  "record_response env action appointment_data w =
     (let handled = mark_handled env action appointment_data in
      case save_appointment_data env handled w of
        (Inl e, w') \<Rightarrow> (Inl e, w')
      | (Inr saved, w') \<Rightarrow> notify_patient env action handled w')"

text \<open>
  The check for an earlier response: \<open>Some\<close> of the stored record when its \<open>status\<close> is
  set, \<open>None\<close> when the handler goes on.
\<close>

definition already_responded ::
  "env \<Rightarrow> (string \<times> jval) list \<Rightarrow> world \<Rightarrow> exn + jval option" where
  "already_responded env appointment_data w =
     (let appointment_id = dict_get appointment_data ''id'' in
      if \<not> truthy appointment_id then Inr None
      else
        (case files w (appointment_file env appointment_id) of
           None \<Rightarrow> Inr None
         | Some Unreadable \<Rightarrow> Inl (open_error env (appointment_file env appointment_id))
         | Some (Blob text) \<Rightarrow> Inl (json_error env text)
         | Some (Json existing_data) \<Rightarrow>
             (case py_get existing_data ''status'' of
                Inl e \<Rightarrow> Inl e
              | Inr st \<Rightarrow> if truthy st then Inr (Some existing_data) else Inr None)))"

text \<open>The body of the \<open>try\<close> block.\<close>

definition respond ::
  "env \<Rightarrow> serializer \<Rightarrow> string \<Rightarrow> string \<Rightarrow> world \<Rightarrow> (exn + response) \<times> world" where
  "respond env ser action token w =
     (let appointment_data = verify_appointment_token ser (clock env) token 3600 in
      if \<not> truthy appointment_data
      then (Inr (error_view ''Invalid or expired appointment link''), w)
      else
        (case appointment_data of
           JObj d \<Rightarrow>
             (case already_responded env d w of
                Inl e \<Rightarrow> (Inl e, w)
              | Inr (Some existing_data) \<Rightarrow>
                  (Inr \<lparr> status = ''already_handled'', appointment = Some existing_data,
                         outcome = None,
                         flashes = [(''This appointment has already been responded to'',
                                     ''warning'')] \<rparr>, w)
              | Inr None \<Rightarrow> record_response env action d w)
         | other \<Rightarrow> (Inl (no_attribute other ''get''), w)))"

definition handle_appointment_response ::
  "env \<Rightarrow> serializer \<Rightarrow> string option \<Rightarrow> string \<Rightarrow> world \<Rightarrow> response \<times> world" where
  "handle_appointment_response env ser action token w =
     (case (case action of
              None \<Rightarrow> None
            | Some a \<Rightarrow> if a = ''accept'' \<or> a = ''reject'' then Some a else None) of
        None \<Rightarrow> (error_view ''Invalid action specified'', w)
      | Some a \<Rightarrow>
          (case respond env ser a token w of
             (Inr view, w') \<Rightarrow> (view, w')
           | (Inl e, w') \<Rightarrow>
               (error_view (''Error processing appointment: '' @ exn_text e),
                print (''Error processing appointment response: '' @ exn_text e) w')))"

section \<open>Scheduling orchestrator\<close>

text \<open>The doctor directory, with the fields the workflow reads.\<close>

record doctor =
  doctor_id :: string
  name :: string
  specialization :: string
  email :: string

definition DOCTORS :: "doctor list" where
  "DOCTORS =
    [
     \<lparr> doctor_id = ''1'', name = ''Dr. Priya Sharma'', specialization = ''Gastroenterologist'',
       email = ''likhith.b.polavaram@gmail.com'' \<rparr>,
     \<lparr> doctor_id = ''2'', name = ''Dr. Arjun Reddy'', specialization = ''Cardiologist'',
       email = ''likhith.b.polavaram@gmail.com'' \<rparr>,
     \<lparr> doctor_id = ''3'', name = ''Dr. Kavitha Menon'', specialization = ''Dermatologist'',
       email = ''likhith.b.polavaram@gmail.com'' \<rparr>,
     \<lparr> doctor_id = ''4'', name = ''Dr. Rajesh Kumar'', specialization = ''Neurologist'',
       email = ''likhith.b.polavaram@gmail.com'' \<rparr>,
     \<lparr> doctor_id = ''5'', name = ''Dr. Anjali Gupta'', specialization = ''Psychiatrist'',
       email = ''likhith.b.polavaram@gmail.com'' \<rparr>,
     \<lparr> doctor_id = ''6'', name = ''Dr. Suresh Iyer'', specialization = ''Orthopedic Surgeon'',
       email = ''likhith.b.polavaram@gmail.com'' \<rparr>,
     \<lparr> doctor_id = ''7'', name = ''Dr. Meera Patel'', specialization = ''Pediatrician'',
       email = ''likhith.b.polavaram@gmail.com'' \<rparr>,
     \<lparr> doctor_id = ''8'', name = ''Dr. Vikram Singh'', specialization = ''Urologist'',
       email = ''likhith.b.polavaram@gmail.com'' \<rparr>,
     \<lparr> doctor_id = ''9'', name = ''Dr. Lakshmi Rao'', specialization = ''Gynecologist'',
       email = ''likhith.b.polavaram@gmail.com'' \<rparr>,
     \<lparr> doctor_id = ''10'', name = ''Dr. Amit Joshi'', specialization = ''Ophthalmologist'',
       email = ''likhith.b.polavaram@gmail.com'' \<rparr>,
     \<lparr> doctor_id = ''11'', name = ''Dr. Deepika Nair'', specialization = ''Endocrinologist'',
       email = ''likhith.b.polavaram@gmail.com'' \<rparr>,
     \<lparr> doctor_id = ''12'', name = ''Dr. Ravi Agarwal'', specialization = ''Pulmonologist'',
       email = ''likhith.b.polavaram@gmail.com'' \<rparr>,
     \<lparr> doctor_id = ''13'', name = ''Dr. Sushma Bhatt'', specialization = ''Rheumatologist'',
       email = ''likhith.b.polavaram@gmail.com'' \<rparr>,
     \<lparr> doctor_id = ''14'', name = ''Dr. Karthik Krishnamurthy'', specialization = ''Oncologist'',
       email = ''likhith.b.polavaram@gmail.com'' \<rparr>,
     \<lparr> doctor_id = ''15'', name = ''Dr. Sunita Mishra'', specialization = ''Nephrologist'',
       email = ''likhith.b.polavaram@gmail.com'' \<rparr>,
     \<lparr> doctor_id = ''16'', name = ''Dr. Harish Chandra'', specialization = ''ENT Specialist'',
       email = ''likhith.b.polavaram@gmail.com'' \<rparr>,
     \<lparr> doctor_id = ''17'', name = ''Dr. Preeti Desai'', specialization = ''Hematologist'',
       email = ''likhith.b.polavaram@gmail.com'' \<rparr>,
     \<lparr> doctor_id = ''18'', name = ''Dr. Manoj Tripathi'', specialization = ''Anesthesiologist'',
       email = ''likhith.b.polavaram@gmail.com'' \<rparr>,
     \<lparr> doctor_id = ''19'', name = ''Dr. Radha Venkatesh'', specialization = ''Radiologist'',
       email = ''likhith.b.polavaram@gmail.com'' \<rparr>,
     \<lparr> doctor_id = ''20'', name = ''Dr. Ashok Bansal'', specialization = ''General Physician'',
       email = ''likhith.b.polavaram@gmail.com'' \<rparr>
    ]"

text \<open>\<open>next((d for d in DOCTORS if d['email'] == doctor_email), None)\<close>.\<close>

definition find_doctor :: "string \<Rightarrow> doctor option" where
  "find_doctor doctor_email = find (\<lambda>d. email d = doctor_email) DOCTORS"

definition text_or_null :: "string option \<Rightarrow> jval" where
  "text_or_null x = (case x of None \<Rightarrow> JNull | Some s \<Rightarrow> JStr s)"

text \<open>
  \<open>send_doctor_appointment_request\<close>: the token is built from the request and put into
  the two links of the doctor's email; nothing is stored.
\<close>

definition request_payload ::
  "env \<Rightarrow> doctor \<Rightarrow> string \<Rightarrow> string \<Rightarrow> string \<Rightarrow> string \<Rightarrow> jval \<Rightarrow> string option
     \<Rightarrow> string option \<Rightarrow> string option \<Rightarrow> jval" where
  "request_payload env doctor_info doctor_email patient_email scheduled_time symptom_summary
       meet_link primary_symptoms additional_symptoms symptom_duration =
     JObj [(''id'', JStr (new_appointment_id env doctor_email patient_email scheduled_time)),
           (''doctor_email'', JStr doctor_email),
           (''patient_email'', JStr patient_email),
           (''appointment_time'', JStr scheduled_time),
           (''meet_link'', meet_link),
           (''doctor_name'', JStr (name doctor_info)),
           (''doctor_specialization'', JStr (specialization doctor_info)),
           (''symptom_summary'', JStr symptom_summary),
           (''primary_symptoms'', text_or_null primary_symptoms),
           (''additional_symptoms'', text_or_null additional_symptoms),
           (''symptom_duration'', text_or_null symptom_duration)]"

definition send_doctor_appointment_request ::
  "env \<Rightarrow> serializer \<Rightarrow> string \<Rightarrow> string \<Rightarrow> string \<Rightarrow> string \<Rightarrow> jval \<Rightarrow> attachment list
     \<Rightarrow> string option \<Rightarrow> string option \<Rightarrow> string option \<Rightarrow> world \<Rightarrow> result \<times> world" where
  "send_doctor_appointment_request env ser doctor_email patient_email scheduled_time
       symptom_summary meet_link attachments primary_symptoms additional_symptoms
       symptom_duration w =
     (case find_doctor doctor_email of
        None \<Rightarrow> (\<lparr> success = False, message = ''Doctor not found'' \<rparr>, w)
      | Some doctor_info \<Rightarrow>
          (let token = generate_appointment_token ser (clock env)
                         (request_payload env doctor_info doctor_email patient_email
                            scheduled_time symptom_summary meet_link primary_symptoms
                            additional_symptoms symptom_duration);
               base_url = rstrip (CHR ''/'') (host_url env);
               accept_url = base_url @ ''/appointment/response/'' @ token @ ''?action=accept'';
               reject_url = base_url @ ''/appointment/response/'' @ token @ ''?action=reject''
           in case render_template env ''email_doctor.html''
                     [(''patient_email'', JStr patient_email),
                      (''scheduled_time'', JStr scheduled_time),
                      (''symptom_summary'', JStr symptom_summary),
                      (''primary_symptoms'',
                         (case primary_symptoms of
                            None \<Rightarrow> JStr ''Not specified''
                          | Some s \<Rightarrow> if s = [] then JStr ''Not specified'' else JStr s)),
                      (''additional_symptoms'', text_or_null additional_symptoms),
                      (''symptom_duration'', text_or_null symptom_duration),
                      (''meet_link'', meet_link),
                      (''accept_url'', JStr accept_url),
                      (''reject_url'', JStr reject_url),
                      (''token'', JStr token)] of
                Inl e \<Rightarrow>
                  (\<lparr> success = False, message = exn_text e \<rparr>,
                   print (''Error sending doctor appointment request: '' @ exn_text e) w)
              | Inr email_body \<Rightarrow>
                  send_email_with_attachments env (email_sender env) (email_password env)
                    (JStr doctor_email) ''New Patient Appointment Request'' email_body
                    attachments w))"

text \<open>
  \<open>authenticate_google_calendar\<close>: no service when the Google client is not installed or
  the stored credentials are missing or not valid.
\<close>

definition authenticate_google_calendar :: "env \<Rightarrow> world \<Rightarrow> (exn + service option) \<times> world" where
  "authenticate_google_calendar env w =
     (if \<not> google_api_available env then (Inr None, w)
      else
        (case (case files w ''token.pickle'' of
                 None \<Rightarrow> Inr None
               | Some Unreadable \<Rightarrow> Inl (open_error env ''token.pickle'')
               | Some content \<Rightarrow> pickle_load env content) of
           Inl e \<Rightarrow> (Inl e, w)
         | Inr creds \<Rightarrow>
             if creds \<noteq> Some True
             then (Inr None, print ''Google Calendar credentials not valid or missing.'' w)
             else (case build env of
                     Inl e \<Rightarrow> (Inl e, w)
                   | Inr s \<Rightarrow> (Inr (Some s), w))))"

definition mock_meet_link :: jval where
  "mock_meet_link = JStr ''https://meet.google.com/abc-defg-hij''"

text \<open>The \<open>try\<close> block that books the event: the success flag and the link it leaves.\<close>

definition create_event ::
  "env \<Rightarrow> service \<Rightarrow> string \<Rightarrow> string \<Rightarrow> string \<Rightarrow> string option \<Rightarrow> world
     \<Rightarrow> (bool \<times> jval) \<times> world" where
  "create_event env svc scheduled_time doctor_email patient_email descr w =
     (case (case strptime env scheduled_time of
              Inl e \<Rightarrow> Inl e
            | Inr start_time \<Rightarrow>
                (case svc \<lparr> summary = ''Doctor Appointment'', description = descr,
                            start_minute = start_time, end_minute = start_time + 30,
                            attendees = [doctor_email, patient_email] \<rparr> of
                   Inl e \<Rightarrow> Inl e
                 | Inr (JObj created_event) \<Rightarrow>
                     Inr (case map_of created_event ''hangoutLink'' of
                            None \<Rightarrow> mock_meet_link
                          | Some link \<Rightarrow> link)
                 | Inr other \<Rightarrow> Inl (no_attribute other ''get''))) of
        Inl e \<Rightarrow>
          ((False, mock_meet_link), print (''Error creating Google Meet: '' @ exn_text e) w)
      | Inr meet_link \<Rightarrow>
          ((True, meet_link),
           print (''Google Calendar event created successfully. Link: ''
                  @ format_value env meet_link) w))"

record schedule_result = result +
  meet_link :: jval

text \<open>
  The doctor's notification: sent for a doctor email that is not empty. The orchestrator
  also looks the doctor up in \<open>DOCTORS\<close> and never reads the result; that lookup is left
  out.
\<close>

definition notify_doctor ::
  "env \<Rightarrow> serializer \<Rightarrow> string \<Rightarrow> string \<Rightarrow> string \<Rightarrow> string \<Rightarrow> jval \<Rightarrow> attachment list
     \<Rightarrow> string option \<Rightarrow> world \<Rightarrow> world" where
  "notify_doctor env ser scheduled_time doctor_email patient_email symptom_summary_html link
       attachments descr w =
     (if doctor_email \<noteq> [] then
        (let (r, w') = send_doctor_appointment_request env ser doctor_email patient_email
                         scheduled_time symptom_summary_html link attachments descr None None w
         in if \<not> success r
            then print (''Failed to send doctor appointment request: '' @ message r) w'
            else w')
      else w)"

definition schedule_meet_with_notification ::
  "env \<Rightarrow> serializer \<Rightarrow> string \<Rightarrow> string \<Rightarrow> string \<Rightarrow> string option \<Rightarrow> attachment list
     \<Rightarrow> world \<Rightarrow> (exn + schedule_result) \<times> world" where
  "schedule_meet_with_notification env ser scheduled_time doctor_email patient_email descr
       attachments w =
     (case authenticate_google_calendar env w of
        (Inl e, w0) \<Rightarrow> (Inl e, w0)
      | (Inr svc, w0) \<Rightarrow>
          (let ((calendar_success, link), w1) =
                 (case svc of
                    Some s \<Rightarrow> create_event env s scheduled_time doctor_email patient_email descr w0
                  | None \<Rightarrow>
                      ((True, mock_meet_link),
                       print (''Using mock Google Meet integration ''
                              @ ''(Google API credentials not available).'') w0))
           in case markdown env descr of
                Inl e \<Rightarrow> (Inl e, w1)
              | Inr symptom_summary_html \<Rightarrow>
                  (Inr \<lparr> success = calendar_success,
                         message = (if calendar_success
                                    then ''Google Meet created successfully''
                                    else ''Failed to create Google Meet, ''
                                         @ ''but notifications sent.''),
                         meet_link = link \<rparr>,
                   notify_doctor env ser scheduled_time doctor_email patient_email
                     symptom_summary_html link attachments descr w1)))"

section \<open>Vocabulary of the statements\<close>




section \<open>Stand-ins for concrete runs\<close>

text \<open>
  An environment in which every outside call succeeds, the Google client is not
  installed and the clock stands at 10; a run changes the fields it needs. The request
  is the one \<open>send_doctor_appointment_request\<close> builds for the first doctor, its token
  signed at second 3.
\<close>

definition calm_env :: env where
  "calm_env =
     \<lparr> clock = 10,
       now_isoformat = ''2025-01-01T10:00:00'',
       str_other = (\<lambda>v. ''?''),
       email_sender = ''clinic@example.org'',
       email_password = ''app-password'',
       host_url = ''http://localhost:5000/'',
       guess_type = (\<lambda>p. None),
       smtp_send = (\<lambda>s p m. None),
       render_template = (\<lambda>template args. Inr template),
       markdown = (\<lambda>d. case d of None \<Rightarrow> Inl (Raised ''no text'') | Some s \<Rightarrow> Inr s),
       open_for_write = (\<lambda>p. None),
       open_error = (\<lambda>p. Raised ''cannot open''),
       json_error = (\<lambda>text. Raised ''not JSON''),
       new_appointment_id = (\<lambda>d p t. ''abc123''),
       google_api_available = False,
       pickle_load = (\<lambda>c. Inr None),
       build = Inl (Raised ''no client''),
       strptime = (\<lambda>s. Inr 0) \<rparr>"

definition empty_world :: world where
  "empty_world = \<lparr> files = (\<lambda>p. None), console = [], sent = [] \<rparr>"

definition sample_request :: "(string \<times> jval) list" where
  "sample_request =
     [(''id'', JStr ''abc123''),
      (''doctor_email'', JStr ''likhith.b.polavaram@gmail.com''),
      (''patient_email'', JStr ''patient@example.org''),
      (''appointment_time'', JStr ''2025-01-01 10:00''),
      (''meet_link'', mock_meet_link),
      (''doctor_name'', JStr ''Dr. Priya Sharma''),
      (''doctor_specialization'', JStr ''Gastroenterologist''),
      (''symptom_summary'', JStr ''fever''),
      (''primary_symptoms'', JStr ''fever''),
      (''additional_symptoms'', JNull),
      (''symptom_duration'', JNull)]"

definition sample_serializer :: serializer where
  "sample_serializer = table_serializer (JObj sample_request)"

definition sample_token :: string where
  "sample_token = generate_appointment_token sample_serializer 3 (JObj sample_request)"

text \<open>
  The worlds and environments of the concrete runs: the store after the sample request
  was accepted, a store holding a record without \<open>status\<close>, an SMTP server that refuses
  the connection, a calendar service that raises, stored credentials for it, and three
  uploads of which the second is not on disk.
\<close>

definition after_accept :: world where
  "after_accept =
     snd (handle_appointment_response calm_env sample_serializer (Some ''accept'')
            sample_token empty_world)"


definition offline_env :: env where
  "offline_env = calm_env\<lparr> smtp_send := (\<lambda>s p m. Some (Raised ''connection refused'')) \<rparr>"






section \<open>Facts about values and the token codec\<close>

lemma rsplit1_none: "c \<notin> set b \<Longrightarrow> rsplit1 c b = None"
  by (induction b) auto

lemma rsplit1_last: "c \<notin> set b \<Longrightarrow> rsplit1 c (a @ c # b) = Some (a, b)"
  by (induction a) (auto simp: rsplit1_none)

lemma loads_dumps:
  assumes "encodes_well ser obj t"
  shows "loads ser now (dumps ser t obj) max_age =
           (if now - t > max_age \<or> now - t < 0 then Inl SignatureExpired else Inr obj)"
proof -
  let ?p = "dump_payload ser obj" and ?ts = "timestamp_text ser t"
  let ?v = "?p @ ''.'' @ ?ts"
  let ?sig = "get_signature ser ?v"
  from assms have dots: "CHR ''.'' \<notin> set ?ts" "CHR ''.'' \<notin> set ?sig"
    and inv: "load_payload ser ?p = Some obj" "timestamp_value ser ?ts = Some t"
    and ok: "verify_signature ser ?v ?sig"
    by (simp_all add: encodes_well_def)
  have outer: "rsplit1 (CHR ''.'') (dumps ser t obj) = Some (?v, ?sig)"
    using rsplit1_last [OF dots(2), of ?v] by (simp add: dumps_def)
  have inner: "rsplit1 (CHR ''.'') ?v = Some (?p, ?ts)"
    using rsplit1_last [OF dots(1), of ?p] by simp
  show ?thesis
    unfolding loads_def outer using inner inv ok by simp
qed

lemma loads_stable:
  "loads ser t1 tok m = Inr v \<Longrightarrow> loads ser t2 tok m = Inr v' \<Longrightarrow> v' = v"
  by (auto simp: loads_def split: option.splits prod.splits if_splits)

lemma verify_later:
  assumes "verify_appointment_token ser t1 tok m = JObj d"
      and "truthy (verify_appointment_token ser t2 tok m)"
  shows "verify_appointment_token ser t2 tok m = JObj d"
proof -
  from assms(1) have l1: "loads ser t1 tok m = Inr (JObj d)"
    by (auto simp: verify_appointment_token_def split: sum.splits)
  from assms(2) obtain v where l2: "loads ser t2 tok m = Inr v"
    by (auto simp: verify_appointment_token_def split: sum.splits)
  from loads_stable [OF l1 l2] l2 show ?thesis
    by (simp add: verify_appointment_token_def)
qed

lemma map_of_dict_set: "map_of (dict_set k v d) = (map_of d)(k \<mapsto> v)"
  by (induction d) (auto simp: fun_eq_iff)

lemma dict_get_dict_set:
  "dict_get (dict_set k v d) k' = (if k' = k then v else dict_get d k')"
  by (simp add: dict_get_def map_of_dict_set)

lemma mark_handled_get:
  "dict_get (mark_handled env a d) ''status'' = JStr a"
  "dict_get (mark_handled env a d) ''response_time'' = JStr (now_isoformat env)"
  "dict_get (mark_handled env a d) ''id'' = dict_get d ''id''"
  by (simp_all add: mark_handled_def dict_get_dict_set)

lemma truthy_id_nonempty: "truthy (dict_get d ''id'') \<Longrightarrow> truthy (JObj d)"
  by (cases d) (auto simp: dict_get_def)

lemma appointment_file_cong:
  "str_other env2 = str_other env1 \<Longrightarrow> appointment_file env2 v = appointment_file env1 v"
  by (cases v) (simp_all add: appointment_file_def)

section \<open>What the dispatcher and the notifications leave alone\<close>

lemma print_simps [simp]:
  "files (print s w) = files w" "sent (print s w) = sent w"
  "console (print s w) = console w @ [s]"
  by (simp_all add: print_def)

lemma attach_one_frame:
  "attach_one env a w = (r, w') \<Longrightarrow> files w' = files w \<and> sent w' = sent w"
  by (auto simp: attach_one_def Let_def split: option.splits if_splits prod.splits fcontent.splits)

lemma attach_all_frame:
  "attach_all env atts parts w = (r, w') \<Longrightarrow> files w' = files w \<and> sent w' = sent w"
proof (induction atts arbitrary: parts w)
  case Nil
  then show ?case by simp
next
  case (Cons a rest)
  obtain r1 w1 where one: "attach_one env a w = (r1, w1)" by (cases "attach_one env a w")
  note fr = attach_one_frame [OF one]
  show ?case
  proof (cases r1)
    case (Inl e)
    with Cons.prems one fr show ?thesis by simp
  next
    case (Inr po)
    with Cons.prems one fr Cons.IH show ?thesis
      by (cases po) auto
  qed
qed

lemma send_email_frame:
  assumes "send_email_with_attachments env s p rcp subj body atts w = (r, w')"
  shows "files w' = files w"
    and "success r \<Longrightarrow> \<exists>m. sent w' = sent w @ [m]"
    and "\<not> success r \<Longrightarrow> sent w' = sent w \<and> (\<exists>t. message r = ''Failed to send email: '' @ t)"
proof -
  obtain r1 w1 where at: "attach_all env atts [] w = (r1, w1)" by (cases "attach_all env atts [] w")
  note fr = attach_all_frame [OF at]
  from assms at fr show "files w' = files w"
    by (auto simp: send_email_with_attachments_def send_failed_def Let_def
        split: sum.splits option.splits)
  from assms at fr show "success r \<Longrightarrow> \<exists>m. sent w' = sent w @ [m]"
    by (auto simp: send_email_with_attachments_def send_failed_def Let_def
        split: sum.splits option.splits)
  from assms at fr show "\<not> success r \<Longrightarrow> sent w' = sent w \<and> (\<exists>t. message r = ''Failed to send email: '' @ t)"
    by (auto simp: send_email_with_attachments_def send_failed_def Let_def
        split: sum.splits option.splits)
qed

lemma send_patient_confirmation_frame:
  assumes "send_patient_confirmation_email env pe dn at ml ds w = (r, w')"
  shows "files w' = files w"
    and "success r \<Longrightarrow> \<exists>m. sent w' = sent w @ [m]"
    and "\<not> success r \<Longrightarrow> sent w' = sent w"
  using assms
  by (auto simp: send_patient_confirmation_email_def split: sum.splits
      dest: send_email_frame)

lemma send_patient_rejection_frame:
  assumes "send_patient_rejection_email env pe dn at ds w = (r, w')"
  shows "files w' = files w"
    and "success r \<Longrightarrow> \<exists>m. sent w' = sent w @ [m]"
    and "\<not> success r \<Longrightarrow> sent w' = sent w"
  using assms
  by (auto simp: send_patient_rejection_email_def split: sum.splits
      dest: send_email_frame)

lemma notify_patient_raise:
  "notify_patient env a d w = (Inl e, w') \<Longrightarrow> w' = w"
  by (auto simp: notify_patient_def Let_def split: if_splits sum.splits prod.splits)

lemma notify_patient_view:
  assumes "notify_patient env a d w = (Inr v, w')"
  shows "files w' = files w"
    and "appointment v = Some (JObj d)"
    and "status v = (if a = ''accept'' then ''accepted'' else ''rejected'')"
    and "flashes v = []"
    and "sent w' = sent w \<Longrightarrow>
           \<exists>m. outcome v = Some ((if a = ''accept''
                    then ''Appointment accepted, but failed to notify patient: ''
                    else ''Appointment declined, but failed to notify patient: '') @ m)"
proof -
  show "files w' = files w"
    using assms
    by (auto simp: notify_patient_def Let_def split: if_splits sum.splits prod.splits
        dest: send_patient_confirmation_frame(1) send_patient_rejection_frame(1))
  show "appointment v = Some (JObj d)"
    using assms
    by (auto simp: notify_patient_def Let_def split: if_splits sum.splits prod.splits)
  show "status v = (if a = ''accept'' then ''accepted'' else ''rejected'')"
    using assms
    by (auto simp: notify_patient_def Let_def split: if_splits sum.splits prod.splits)
  show "flashes v = []"
    using assms
    by (auto simp: notify_patient_def Let_def split: if_splits sum.splits prod.splits)
  assume same: "sent w' = sent w"
  show "\<exists>m. outcome v = Some ((if a = ''accept''
                    then ''Appointment accepted, but failed to notify patient: ''
                    else ''Appointment declined, but failed to notify patient: '') @ m)"
  proof (cases "a = ''accept''")
    case True
    with assms obtain pe dn at ml r where
      call: "send_patient_confirmation_email env pe dn at ml (dict_get d ''doctor_specialization'') w = (r, w')"
      and v: "outcome v = Some (if success r
                        then ''Appointment accepted successfully! Patient has been notified via email.''
                        else ''Appointment accepted, but failed to notify patient: '' @ message r)"
      by (auto simp: notify_patient_def Let_def split: sum.splits prod.splits)
    from send_patient_confirmation_frame(2) [OF call] same have "\<not> success r" by auto
    with v True show ?thesis by auto
  next
    case False
    with assms obtain pe dn at r where
      call: "send_patient_rejection_email env pe dn at (dict_get d ''doctor_specialization'') w = (r, w')"
      and v: "outcome v = Some (if success r
                        then ''Appointment declined. Patient has been notified via email.''
                        else ''Appointment declined, but failed to notify patient: '' @ message r)"
      by (auto simp: notify_patient_def Let_def split: sum.splits prod.splits)
    from send_patient_rejection_frame(2) [OF call] same have "\<not> success r" by auto
    with v False show ?thesis by auto
  qed
qed

section \<open>The response handler, case by case\<close>

lemma save_appointment_data_cases:
  "save_appointment_data env d w =
     (if \<not> truthy (dict_get d ''id'') then (Inr False, w)
      else case open_for_write env (appointment_file env (dict_get d ''id'')) of
             Some e \<Rightarrow> (Inl e, w)
           | None \<Rightarrow> (Inr True,
               w\<lparr>files := (files w)(appointment_file env (dict_get d ''id'') \<mapsto> Json (JObj d))\<rparr>))"
  by (simp add: save_appointment_data_def Let_def)

lemma record_response_files:
  assumes "record_response env a d w = (r, w')"
  shows "files w' =
           (if truthy (dict_get d ''id'') \<and>
               open_for_write env (appointment_file env (dict_get d ''id'')) = None
            then (files w)(appointment_file env (dict_get d ''id'')
                    \<mapsto> Json (JObj (mark_handled env a d)))
            else files w)"
proof -
  let ?h = "mark_handled env a d"
  obtain r1 w1 where sv: "save_appointment_data env ?h w = (r1, w1)"
    by (cases "save_appointment_data env ?h w")
  have f1: "files w1 =
           (if truthy (dict_get d ''id'') \<and>
               open_for_write env (appointment_file env (dict_get d ''id'')) = None
            then (files w)(appointment_file env (dict_get d ''id'') \<mapsto> Json (JObj ?h))
            else files w)"
    using sv by (auto simp: save_appointment_data_cases mark_handled_get split: if_splits option.splits)
  show ?thesis
  proof (cases r1)
    case (Inl e)
    with assms sv have "w' = w1" by (simp add: record_response_def Let_def)
    with f1 show ?thesis by simp
  next
    case (Inr b)
    with assms sv have n: "notify_patient env a ?h w1 = (r, w')"
      by (simp add: record_response_def Let_def)
    have "files w' = files w1"
    proof (cases r)
      case (Inl e)
      with n show ?thesis by (auto dest: notify_patient_raise)
    next
      case (Inr v)
      with n show ?thesis by (auto dest: notify_patient_view(1))
    qed
    with f1 show ?thesis by simp
  qed
qed

lemma record_response_view:
  assumes "record_response env a d w = (Inr v, w')"
  shows "status v = (if a = ''accept'' then ''accepted'' else ''rejected'')"
    and "appointment v = Some (JObj (mark_handled env a d))"
    and "truthy (dict_get d ''id'') \<Longrightarrow>
           open_for_write env (appointment_file env (dict_get d ''id'')) = None"
    and "sent w' = sent w \<Longrightarrow>
           \<exists>m. outcome v = Some ((if a = ''accept''
                    then ''Appointment accepted, but failed to notify patient: ''
                    else ''Appointment declined, but failed to notify patient: '') @ m)"
proof -
  let ?h = "mark_handled env a d"
  obtain r1 w1 where sv: "save_appointment_data env ?h w = (r1, w1)"
    by (cases "save_appointment_data env ?h w")
  from assms sv obtain b where r1: "r1 = Inr b"
    by (cases r1) (auto simp: record_response_def Let_def)
  with assms sv have n: "notify_patient env a ?h w1 = (Inr v, w')"
    by (simp add: record_response_def Let_def)
  from sv r1 have s1: "sent w1 = sent w"
    by (auto simp: save_appointment_data_cases split: if_splits option.splits)
  show "status v = (if a = ''accept'' then ''accepted'' else ''rejected'')"
    by (rule notify_patient_view(3) [OF n])
  show "appointment v = Some (JObj ?h)"
    by (rule notify_patient_view(2) [OF n])
  show "truthy (dict_get d ''id'') \<Longrightarrow>
           open_for_write env (appointment_file env (dict_get d ''id'')) = None"
    using sv r1 by (auto simp: save_appointment_data_cases mark_handled_get split: if_splits option.splits)
  show "sent w' = sent w \<Longrightarrow>
           \<exists>m. outcome v = Some ((if a = ''accept''
                    then ''Appointment accepted, but failed to notify patient: ''
                    else ''Appointment declined, but failed to notify patient: '') @ m)"
    using notify_patient_view(5) [OF n] s1 by simp
qed

lemma respond_cases:
  assumes "respond env ser a token w = (r, w')"
  shows "(files w' = files w \<and> sent w' = sent w \<and>
            (\<forall>v. r = Inr v \<longrightarrow> status v = ''error'' \<or> status v = ''already_handled'')) \<or>
         (\<exists>d. verify_appointment_token ser (clock env) token 3600 = JObj d \<and>
               already_responded env d w = Inr None \<and>
               record_response env a d w = (r, w'))"
  using assms
  by (auto simp: respond_def Let_def error_view_def split: if_splits jval.splits sum.splits option.splits)

lemma handle_valid:
  assumes "a = ''accept'' \<or> a = ''reject''"
  shows "handle_appointment_response env ser (Some a) token w =
           (case respond env ser a token w of
              (Inr view, w') \<Rightarrow> (view, w')
            | (Inl e, w') \<Rightarrow>
                (error_view (''Error processing appointment: '' @ exn_text e),
                 print (''Error processing appointment response: '' @ exn_text e) w'))"
  using assms by (auto simp: handle_appointment_response_def)

lemma handle_cases:
  assumes "handle_appointment_response env ser action token w = (v, w')"
  shows "(files w' = files w \<and> sent w' = sent w \<and>
            (status v = ''error'' \<or> status v = ''already_handled'')) \<or>
         (\<exists>a d r w1. action = Some a \<and> (a = ''accept'' \<or> a = ''reject'') \<and>
               verify_appointment_token ser (clock env) token 3600 = JObj d \<and>
               already_responded env d w = Inr None \<and>
               record_response env a d w = (r, w1) \<and>
               files w' = files w1 \<and> sent w' = sent w1 \<and>
               (case r of Inr view \<Rightarrow> v = view \<and> w' = w1 | Inl e \<Rightarrow> status v = ''error''))"
proof (cases "action = Some ''accept'' \<or> action = Some ''reject''")
  case False
  with assms show ?thesis
    by (cases action) (auto simp: handle_appointment_response_def error_view_def)
next
  case True
  then obtain a where a: "action = Some a" "a = ''accept'' \<or> a = ''reject''" by auto
  obtain r w1 where rs: "respond env ser a token w = (r, w1)"
    by (cases "respond env ser a token w")
  from assms a rs have fin: "files w' = files w1" "sent w' = sent w1"
    and vr: "case r of Inr view \<Rightarrow> v = view \<and> w' = w1 | Inl e \<Rightarrow> status v = ''error''"
    by (auto simp: handle_valid error_view_def split: sum.splits)
  from respond_cases [OF rs] show ?thesis
  proof
    assume "files w1 = files w \<and> sent w1 = sent w \<and>
            (\<forall>v. r = Inr v \<longrightarrow> status v = ''error'' \<or> status v = ''already_handled'')"
    with fin vr show ?thesis by (cases r) auto
  next
    assume "\<exists>d. verify_appointment_token ser (clock env) token 3600 = JObj d \<and>
               already_responded env d w = Inr None \<and>
               record_response env a d w = (r, w1)"
    with a fin vr show ?thesis by blast
  qed
qed

lemma respond_stored:
  assumes payload: "verify_appointment_token ser (clock env) token 3600 = JObj d"
      and ident: "truthy (dict_get d ''id'')"
      and stored: "files w (appointment_file env (dict_get d ''id'')) = Some (Json (JObj e))"
  shows "respond env ser a token w =
           (if truthy (dict_get e ''status'')
            then (Inr \<lparr> status = ''already_handled'', appointment = Some (JObj e),
                        outcome = None,
                        flashes = [(''This appointment has already been responded to'',
                                    ''warning'')] \<rparr>, w)
            else record_response env a d w)"
  using assms truthy_id_nonempty [OF ident]
  by (simp add: respond_def already_responded_def py_get_def Let_def)

section \<open>Token codec: round trip, expiry and invalid tokens\<close>

text \<open>
  Claim C2. A payload encoded into an appointment token with the signing secret decodes,
  with the same secret and while no more than \<open>max_age\<close> seconds have passed since
  encoding, to exactly that payload. The library's part is \<open>encodes_well\<close>.
\<close>

theorem token_round_trip:
  assumes "encodes_well ser obj t"
      and "t \<le> now" and "now - t \<le> max_age"
  shows "verify_appointment_token ser now (generate_appointment_token ser t obj) max_age = obj"
  using assms(2,3)
  by (simp add: verify_appointment_token_def generate_appointment_token_def
      loads_dumps [OF assms(1)])

text \<open>
  A request of one field, signed at second 5 and read at second 8.
\<close>

theorem token_round_trip_witness:
  "encodes_well (table_serializer (JObj [(''id'', JStr ''abc123'')]))
     (JObj [(''id'', JStr ''abc123'')]) 5 \<and>
   (5::int) \<le> 8 \<and> 8 - 5 \<le> (3600::int) \<and>
   verify_appointment_token (table_serializer (JObj [(''id'', JStr ''abc123'')])) 8
     (generate_appointment_token (table_serializer (JObj [(''id'', JStr ''abc123'')])) 5
        (JObj [(''id'', JStr ''abc123'')])) 3600
   = JObj [(''id'', JStr ''abc123'')]"
proof -
  have h: "encodes_well (table_serializer (JObj [(''id'', JStr ''abc123'')]))
     (JObj [(''id'', JStr ''abc123'')]) 5"
    by (simp add: encodes_well_def table_serializer_def)
  show ?thesis
    using h token_round_trip [OF h, of 8 3600] by simp
qed




section \<open>Response handler: the one transition of an appointment\<close>

text \<open>
  Claim C4. An action other than \<open>accept\<close> or \<open>reject\<close> (or none at all) is
  answered with the error view and the message \<open>Invalid action specified\<close>; the world is
  returned as it was, and the answer depends on neither the token, the serializer, the
  environment nor the store, so nothing of them was consulted.
\<close>

theorem invalid_action_rejected:
  assumes "action \<noteq> Some ''accept''" and "action \<noteq> Some ''reject''"
  shows "handle_appointment_response env ser action token w =
           (error_view ''Invalid action specified'', w)"
  using assms by (cases action) (auto simp: handle_appointment_response_def)

theorem invalid_action_rejected_witness:
  "Some ''cancel'' \<noteq> Some ''accept'' \<and> Some ''cancel'' \<noteq> Some ''reject'' \<and>
   handle_appointment_response calm_env sample_serializer (Some ''cancel'') sample_token
     empty_world = (error_view ''Invalid action specified'', empty_world)"
  using invalid_action_rejected [of "Some ''cancel''" calm_env sample_serializer sample_token empty_world]
  by simp

text \<open>
  Claim C1, as the code has it. After a first valid response has created the stored
  record, the record's status is the first action, and a second response with the same
  token and either action leaves the world as it is: while the token still verifies it
  is answered \<open>already_handled\<close> with the stored record, and once the token no longer
  verifies (it has expired) it is answered with the error view.
\<close>

theorem second_response_changes_nothing:
  assumes first: "handle_appointment_response env1 ser (Some a1) token w0 = (v1, w1)"
      and moved: "status v1 = ''accepted'' \<or> status v1 = ''rejected''"
      and payload: "verify_appointment_token ser (clock env1) token 3600 = JObj d"
      and ident: "truthy (dict_get d ''id'')"
      and same_str: "str_other env2 = str_other env1"
      and second: "a2 = ''accept'' \<or> a2 = ''reject''"
  shows "files w1 (appointment_file env1 (dict_get d ''id''))
           = Some (Json (JObj (mark_handled env1 a1 d))) \<and>
         dict_get (mark_handled env1 a1 d) ''status'' = JStr a1 \<and>
         handle_appointment_response env2 ser (Some a2) token w1 =
           (if truthy (verify_appointment_token ser (clock env2) token 3600)
            then \<lparr> status = ''already_handled'',
                   appointment = Some (JObj (mark_handled env1 a1 d)),
                   outcome = None,
                   flashes = [(''This appointment has already been responded to'',
                               ''warning'')] \<rparr>
            else error_view ''Invalid or expired appointment link'', w1)"
proof -
  let ?h = "mark_handled env1 a1 d"
  let ?p = "appointment_file env1 (dict_get d ''id'')"
  from handle_cases [OF first] moved payload
  obtain r w' where a1: "a1 = ''accept'' \<or> a1 = ''reject''"
    and rr: "record_response env1 a1 d w0 = (r, w')"
    and vr: "case r of Inr view \<Rightarrow> v1 = view \<and> w1 = w' | Inl e \<Rightarrow> status v1 = ''error''"
    by auto
  from vr moved have r: "r = Inr v1" and w': "w' = w1" by (cases r; simp)+
  note vw = record_response_view [OF rr [unfolded r w']]
  from record_response_files [OF rr] vw(3) [OF ident] ident w'
  have stored: "files w1 ?p = Some (Json (JObj ?h))" by simp
  have st: "dict_get ?h ''status'' = JStr a1" by (simp add: mark_handled_get)
  from a1 have tr: "truthy (dict_get ?h ''status'')" by (auto simp: st)
  have third: "handle_appointment_response env2 ser (Some a2) token w1 =
           (if truthy (verify_appointment_token ser (clock env2) token 3600)
            then \<lparr> status = ''already_handled'', appointment = Some (JObj ?h),
                   outcome = None,
                   flashes = [(''This appointment has already been responded to'',
                               ''warning'')] \<rparr>
            else error_view ''Invalid or expired appointment link'', w1)"
  proof (cases "truthy (verify_appointment_token ser (clock env2) token 3600)")
    case True
    from verify_later [OF payload True]
    have p2: "verify_appointment_token ser (clock env2) token 3600 = JObj d" .
    from stored appointment_file_cong [OF same_str]
    have s2: "files w1 (appointment_file env2 (dict_get d ''id'')) = Some (Json (JObj ?h))"
      by simp
    from respond_stored [OF p2 ident s2, of a2] tr True show ?thesis
      by (simp add: handle_valid [OF second])
  next
    case False
    then show ?thesis
      by (simp add: handle_valid [OF second] respond_def Let_def)
  qed
  from stored st third show ?thesis by simp
qed

text \<open>
  The sample request accepted at second 10 and rejected again at second 20.
\<close>

theorem second_response_changes_nothing_witness:
  "status (fst (handle_appointment_response calm_env sample_serializer (Some ''accept'')
                  sample_token empty_world)) = ''accepted'' \<and>
   verify_appointment_token sample_serializer (clock calm_env) sample_token 3600
     = JObj sample_request \<and>
   truthy (dict_get sample_request ''id'') \<and>
   truthy (verify_appointment_token sample_serializer (clock (calm_env\<lparr>clock := 20\<rparr>))
             sample_token 3600) \<and>
   files after_accept (appointment_file calm_env (dict_get sample_request ''id''))
     = Some (Json (JObj (mark_handled calm_env ''accept'' sample_request))) \<and>
   dict_get (mark_handled calm_env ''accept'' sample_request) ''status'' = JStr ''accept'' \<and>
   handle_appointment_response (calm_env\<lparr>clock := 20\<rparr>) sample_serializer (Some ''reject'')
       sample_token after_accept =
     (\<lparr> status = ''already_handled'',
        appointment = Some (JObj (mark_handled calm_env ''accept'' sample_request)),
        outcome = None,
        flashes = [(''This appointment has already been responded to'', ''warning'')] \<rparr>,
      after_accept)"
proof -
  have first: "handle_appointment_response calm_env sample_serializer (Some ''accept'')
         sample_token empty_world =
       (fst (handle_appointment_response calm_env sample_serializer (Some ''accept'')
               sample_token empty_world), after_accept)"
    by (simp add: after_accept_def)
  have moved: "status (fst (handle_appointment_response calm_env sample_serializer
                  (Some ''accept'') sample_token empty_world)) = ''accepted''"
    by code_simp
  have payload: "verify_appointment_token sample_serializer (clock calm_env) sample_token 3600
     = JObj sample_request"
    by code_simp
  have ident: "truthy (dict_get sample_request ''id'')"
    by code_simp
  have same_str: "str_other (calm_env\<lparr>clock := 20\<rparr>) = str_other calm_env"
    by simp
  have valid: "truthy (verify_appointment_token sample_serializer
                         (clock (calm_env\<lparr>clock := 20\<rparr>)) sample_token 3600)"
    by code_simp
  from second_response_changes_nothing [OF first disjI1 [OF moved] payload ident same_str,
      of "''reject''"] valid
  show ?thesis using moved payload ident by simp
qed

text \<open>
  Against claim C1 as stated: the same token presented again at second 3604, after
  its hour, is answered with the error view, not with \<open>already_handled\<close>.
\<close>

theorem expired_second_response_counterexample:
  "status (fst (handle_appointment_response calm_env sample_serializer (Some ''accept'')
                  sample_token empty_world)) = ''accepted'' \<and>
   files after_accept ''appointments/abc123.json''
     = Some (Json (JObj (mark_handled calm_env ''accept'' sample_request))) \<and>
   handle_appointment_response (calm_env\<lparr>clock := 3604\<rparr>) sample_serializer (Some ''reject'')
       sample_token after_accept
     = (error_view ''Invalid or expired appointment link'', after_accept)"
proof -
  have a: "status (fst (handle_appointment_response calm_env sample_serializer (Some ''accept'')
                  sample_token empty_world)) = ''accepted''"
    by code_simp
  have b: "files after_accept ''appointments/abc123.json''
     = Some (Json (JObj (mark_handled calm_env ''accept'' sample_request)))"
    by code_simp
  have c: "verify_appointment_token sample_serializer 3604 sample_token 3600 = JNull"
    by code_simp
  have d: "handle_appointment_response (calm_env\<lparr>clock := 3604\<rparr>) sample_serializer
       (Some ''reject'') sample_token after_accept
     = (error_view ''Invalid or expired appointment link'', after_accept)"
    by (simp add: handle_appointment_response_def respond_def c)
  from a b d show ?thesis by simp
qed




text \<open>
  Claim C7. When the handler has saved the decision and answers \<open>accepted\<close> or
  \<open>rejected\<close>, but the patient's notification was not delivered (the SMTP server
  accepted no message), the stored record keeps the new status and the view's text
  says that notifying the patient failed, with the reason.
\<close>

theorem failed_notification_keeps_record:
  assumes run: "handle_appointment_response env ser (Some a) token w = (v, w')"
      and moved: "status v = ''accepted'' \<or> status v = ''rejected''"
      and payload: "verify_appointment_token ser (clock env) token 3600 = JObj d"
      and ident: "truthy (dict_get d ''id'')"
      and undelivered: "sent w' = sent w"
  shows "files w' (appointment_file env (dict_get d ''id''))
           = Some (Json (JObj (mark_handled env a d))) \<and>
         dict_get (mark_handled env a d) ''status'' = JStr a \<and>
         status v = (if a = ''accept'' then ''accepted'' else ''rejected'') \<and>
         (\<exists>m. outcome v = Some ((if a = ''accept''
                    then ''Appointment accepted, but failed to notify patient: ''
                    else ''Appointment declined, but failed to notify patient: '') @ m))"
proof -
  from handle_cases [OF run] moved payload
  obtain r w1 where rr: "record_response env a d w = (r, w1)"
    and fin: "files w' = files w1" "sent w' = sent w1"
    and vr: "case r of Inr view \<Rightarrow> v = view \<and> w' = w1 | Inl e \<Rightarrow> status v = ''error''"
    by auto
  from vr moved have r: "r = Inr v" and w1: "w1 = w'" by (cases r; simp)+
  note vw = record_response_view [OF rr [unfolded r w1]]
  from record_response_files [OF rr] vw(3) [OF ident] ident w1
  have "files w' (appointment_file env (dict_get d ''id''))
           = Some (Json (JObj (mark_handled env a d)))" by simp
  with vw(1) vw(4) [OF undelivered] show ?thesis
    by (simp add: mark_handled_get)
qed

text \<open>
  The sample request accepted while the SMTP server refuses the connection.
\<close>

theorem failed_notification_keeps_record_witness:
  "status (fst (handle_appointment_response offline_env sample_serializer (Some ''accept'')
                  sample_token empty_world)) = ''accepted'' \<and>
   verify_appointment_token sample_serializer (clock offline_env) sample_token 3600
     = JObj sample_request \<and>
   truthy (dict_get sample_request ''id'') \<and>
   sent (snd (handle_appointment_response offline_env sample_serializer (Some ''accept'')
                sample_token empty_world)) = sent empty_world \<and>
   files (snd (handle_appointment_response offline_env sample_serializer (Some ''accept'')
                 sample_token empty_world))
       (appointment_file offline_env (dict_get sample_request ''id''))
     = Some (Json (JObj (mark_handled offline_env ''accept'' sample_request))) \<and>
   dict_get (mark_handled offline_env ''accept'' sample_request) ''status'' = JStr ''accept'' \<and>
   (\<exists>m. outcome (fst (handle_appointment_response offline_env sample_serializer
                         (Some ''accept'') sample_token empty_world))
          = Some (''Appointment accepted, but failed to notify patient: '' @ m))"
proof -
  let ?run = "handle_appointment_response offline_env sample_serializer (Some ''accept'')
                sample_token empty_world"
  have run: "?run = (fst ?run, snd ?run)" by simp
  have moved: "status (fst ?run) = ''accepted''" by code_simp
  have payload: "verify_appointment_token sample_serializer (clock offline_env) sample_token 3600
     = JObj sample_request" by code_simp
  have ident: "truthy (dict_get sample_request ''id'')" by code_simp
  have undelivered: "sent (snd ?run) = sent empty_world" by code_simp
  from failed_notification_keeps_record [OF run disjI1 [OF moved] payload ident undelivered]
  show ?thesis using moved payload ident undelivered by simp
qed

text \<open>
  Claim C10. Whatever file the handler changes, it is the file of the payload's id, the
  id is set, and the file then holds the payload with \<open>status\<close> equal to the inbound
  action (\<open>accept\<close> or \<open>reject\<close>) and \<open>response_time\<close> equal to the time of the
  response; and saving a payload without id writes nothing and returns \<open>False\<close>.
\<close>

theorem persisted_record_shape:
  assumes "handle_appointment_response env ser action token w = (v, w')"
      and "files w' p \<noteq> files w p"
  shows "(\<exists>a d. action = Some a \<and> (a = ''accept'' \<or> a = ''reject'') \<and>
           verify_appointment_token ser (clock env) token 3600 = JObj d \<and>
           truthy (dict_get d ''id'') \<and>
           p = appointment_file env (dict_get d ''id'') \<and>
           files w' p = Some (Json (JObj (mark_handled env a d))) \<and>
           dict_get (mark_handled env a d) ''status'' = JStr a \<and>
           dict_get (mark_handled env a d) ''response_time'' = JStr (now_isoformat env)) \<and>
         (\<forall>d0 w0. \<not> truthy (dict_get d0 ''id'') \<longrightarrow>
            save_appointment_data env d0 w0 = (Inr False, w0))"
proof -
  from handle_cases [OF assms(1)] assms(2)
  obtain a d r w1 where a: "action = Some a" "a = ''accept'' \<or> a = ''reject''"
    and d: "verify_appointment_token ser (clock env) token 3600 = JObj d"
    and rr: "record_response env a d w = (r, w1)"
    and fin: "files w' = files w1"
    by auto
  from record_response_files [OF rr] fin assms(2)
  have "truthy (dict_get d ''id'')"
    and "p = appointment_file env (dict_get d ''id'')"
    and "files w' p = Some (Json (JObj (mark_handled env a d)))"
    by (auto split: if_splits)
  with a d show ?thesis
    by (auto simp: mark_handled_get save_appointment_data_cases)
qed

text \<open>
  The sample request accepted in an empty store.
\<close>

theorem persisted_record_shape_witness:
  "files after_accept ''appointments/abc123.json''
     \<noteq> files empty_world ''appointments/abc123.json'' \<and>
   (\<exists>a d. Some ''accept'' = Some a \<and> (a = ''accept'' \<or> a = ''reject'') \<and>
      verify_appointment_token sample_serializer (clock calm_env) sample_token 3600 = JObj d \<and>
      truthy (dict_get d ''id'') \<and>
      ''appointments/abc123.json'' = appointment_file calm_env (dict_get d ''id'') \<and>
      files after_accept ''appointments/abc123.json''
        = Some (Json (JObj (mark_handled calm_env a d))) \<and>
      dict_get (mark_handled calm_env a d) ''status'' = JStr a \<and>
      dict_get (mark_handled calm_env a d) ''response_time''
        = JStr (now_isoformat calm_env))"
proof -
  have run: "handle_appointment_response calm_env sample_serializer (Some ''accept'')
         sample_token empty_world =
       (fst (handle_appointment_response calm_env sample_serializer (Some ''accept'')
               sample_token empty_world), after_accept)"
    by (simp add: after_accept_def)
  have changed: "files after_accept ''appointments/abc123.json''
     \<noteq> files empty_world ''appointments/abc123.json''"
    by code_simp
  from persisted_record_shape [OF run changed] changed show ?thesis by blast
qed

section \<open>Scheduling orchestrator: no record, and the calendar fallback\<close>

lemma send_doctor_frame:
  "send_doctor_appointment_request env ser de pe st html link atts ps ad du w = (r, w')
     \<Longrightarrow> files w' = files w"
  by (auto simp: send_doctor_appointment_request_def Let_def
      split: option.splits sum.splits dest: send_email_frame(1))

lemma authenticate_frame:
  "authenticate_google_calendar env w = (r, w') \<Longrightarrow> files w' = files w"
  by (auto simp: authenticate_google_calendar_def
      split: if_splits option.splits sum.splits fcontent.splits)

lemma create_event_frame:
  "create_event env svc st de pe descr w = (r, w') \<Longrightarrow> files w' = files w"
  by (auto simp: create_event_def split: sum.splits jval.splits option.splits)


text \<open>
  Claim C6. The scheduling orchestrator, which builds the token and notifies the doctor,
  writes no file: the store after it is the store before it, whatever it was given and
  however its calls end. A record appears only when the response handler saves one.
\<close>

theorem orchestrator_never_writes:
  "files (snd (schedule_meet_with_notification env ser scheduled_time doctor_email
                 patient_email descr attachments w)) = files w"
proof -
  obtain r0 w0 where au: "authenticate_google_calendar env w = (r0, w0)"
    by (cases "authenticate_google_calendar env w")
  note f0 = authenticate_frame [OF au]
  show ?thesis
  proof (cases r0)
    case (Inl e)
    with au f0 show ?thesis by (simp add: schedule_meet_with_notification_def)
  next
    case (Inr svc)
    obtain ok link w1 where cal:
      "(case svc of
          Some s \<Rightarrow> create_event env s scheduled_time doctor_email patient_email descr w0
        | None \<Rightarrow>
            ((True, mock_meet_link),
             print (''Using mock Google Meet integration ''
                    @ ''(Google API credentials not available).'') w0)) = ((ok, link), w1)"
      by (metis surj_pair)
    have f1: "files w1 = files w0"
      using cal by (cases svc) (auto dest: create_event_frame)
    show ?thesis
    proof (cases "markdown env descr")
      case (Inl e)
      with au Inr cal f0 f1 show ?thesis
        by (simp add: schedule_meet_with_notification_def)
    next
      case md: (Inr html)
      have "files (notify_doctor env ser scheduled_time doctor_email patient_email html link
                     attachments descr w1) = files w1"
        by (auto simp: notify_doctor_def Let_def split: prod.splits dest: send_doctor_frame)
      with au Inr cal md f0 f1 show ?thesis
        by (simp add: schedule_meet_with_notification_def Let_def)
    qed
  qed
qed




section \<open>Notification dispatcher: missing attachments\<close>





end
